theory Spec2Isabelle
  imports Main "HOL-Library.Word" "HOL-Library.AList"
begin

section \<open>PG::TypeMapByMriType (ext/pg\_type\_map\_by\_mri\_type.c)\<close>

text \<open>
  The type map selects a value encoder from the MRI-internal type code of the value to
  be sent. The C file generates one pair of struct members, one \<^verbatim>\<open>case\<close> label,
  one \<^verbatim>\<open>else if\<close> clause and one hash entry per type through the macro
  \<^verbatim>\<open>FOR_EACH_MRI_TYPE(func)\<close>. The embedding keeps that shape: the macro's
  argument list is a list of type codes, and every macro that is passed to it is a
  function of the type code.
\<close>

subsection \<open>The host runtime: type codes and values\<close>

text \<open>The eighteen type codes of \<^verbatim>\<open>FOR_EACH_MRI_TYPE\<close>, in the macro's order.\<close>

datatype mri_type =
    T_FIXNUM | T_TRUE | T_FALSE | T_FLOAT | T_BIGNUM | T_COMPLEX | T_RATIONAL
  | T_ARRAY | T_STRING | T_SYMBOL | T_OBJECT | T_CLASS | T_MODULE | T_REGEXP
  | T_HASH | T_STRUCT | T_FILE | T_DATA

definition FOR_EACH_MRI_TYPE :: "mri_type list" where
  "FOR_EACH_MRI_TYPE =
     [T_FIXNUM, T_TRUE, T_FALSE, T_FLOAT, T_BIGNUM, T_COMPLEX, T_RATIONAL,
      T_ARRAY, T_STRING, T_SYMBOL, T_OBJECT, T_CLASS, T_MODULE, T_REGEXP,
      T_HASH, T_STRUCT, T_FILE, T_DATA]"

text \<open>The preprocessor's \<^verbatim>\<open>#type\<close>: the type code as a C string literal.\<close>

fun stringify :: "mri_type \<Rightarrow> string" where
  "stringify T_FIXNUM = ''T_FIXNUM''"
| "stringify T_TRUE = ''T_TRUE''"
| "stringify T_FALSE = ''T_FALSE''"
| "stringify T_FLOAT = ''T_FLOAT''"
| "stringify T_BIGNUM = ''T_BIGNUM''"
| "stringify T_COMPLEX = ''T_COMPLEX''"
| "stringify T_RATIONAL = ''T_RATIONAL''"
| "stringify T_ARRAY = ''T_ARRAY''"
| "stringify T_STRING = ''T_STRING''"
| "stringify T_SYMBOL = ''T_SYMBOL''"
| "stringify T_OBJECT = ''T_OBJECT''"
| "stringify T_CLASS = ''T_CLASS''"
| "stringify T_MODULE = ''T_MODULE''"
| "stringify T_REGEXP = ''T_REGEXP''"
| "stringify T_HASH = ''T_HASH''"
| "stringify T_STRUCT = ''T_STRUCT''"
| "stringify T_FILE = ''T_FILE''"
| "stringify T_DATA = ''T_DATA''"

text \<open>
  What \<^verbatim>\<open>TYPE(v)\<close> can return: one of the eighteen listed codes, or one of the
  codes of the runtime's \<^verbatim>\<open>enum ruby_value_type\<close> that the macro leaves out.
\<close>

datatype ruby_value_type =
    Listed mri_type
  | T_NONE | T_NIL | T_MATCH | T_UNDEF | T_NODE | T_ICLASS | T_ZOMBIE

text \<open>
  A \<^verbatim>\<open>VALUE\<close>. Immediate values and strings carry their content; other objects
  carry what identifies them (a class name and an address). A string and a hash carry
  their frozen flag. \<open>Coder\<close> is an instance of \<^verbatim>\<open>PG::Coder\<close> or of a class
  derived from it; \<open>RData\<close> is any other wrapped C struct (the type map itself is
  one) and \<open>RProc\<close> a \<^verbatim>\<open>Proc\<close>.
\<close>

datatype VALUE =
    Qnil | Qtrue | Qfalse
  | Fixnum int
  | Bignum int
  | RFloat "64 word"
  | RComplex nat
  | RRational int int
  | RArray "VALUE list"
  | RString string bool
  | RSymbol string
  | RObject string nat
  | RClass string
  | RModule string
  | RRegexp string
  | RHash "(VALUE \<times> VALUE) list" bool
  | RStruct string "VALUE list"
  | RFile nat
  | RMatch nat
  | RProc nat
  | RData string nat
  | Coder string nat

text \<open>The macro \<^verbatim>\<open>TYPE(v)\<close>, which is the runtime's \<^verbatim>\<open>rb_type(v)\<close>.\<close>

fun rb_type :: "VALUE \<Rightarrow> ruby_value_type" where
  "rb_type Qnil = T_NIL"
| "rb_type Qtrue = Listed T_TRUE"
| "rb_type Qfalse = Listed T_FALSE"
| "rb_type (Fixnum _) = Listed T_FIXNUM"
| "rb_type (Bignum _) = Listed T_BIGNUM"
| "rb_type (RFloat _) = Listed T_FLOAT"
| "rb_type (RComplex _) = Listed T_COMPLEX"
| "rb_type (RRational _ _) = Listed T_RATIONAL"
| "rb_type (RArray _) = Listed T_ARRAY"
| "rb_type (RString _ _) = Listed T_STRING"
| "rb_type (RSymbol _) = Listed T_SYMBOL"
| "rb_type (RObject _ _) = Listed T_OBJECT"
| "rb_type (RClass _) = Listed T_CLASS"
| "rb_type (RModule _) = Listed T_MODULE"
| "rb_type (RRegexp _) = Listed T_REGEXP"
| "rb_type (RHash _ _) = Listed T_HASH"
| "rb_type (RStruct _ _) = Listed T_STRUCT"
| "rb_type (RFile _) = Listed T_FILE"
| "rb_type (RMatch _) = T_MATCH"
| "rb_type (RProc _) = Listed T_DATA"
| "rb_type (RData _ _) = Listed T_DATA"
| "rb_type (Coder _ _) = Listed T_DATA"

definition NIL_P :: "VALUE \<Rightarrow> bool" where
  "NIL_P v = (v = Qnil)"

text \<open>\<^verbatim>\<open>rb_obj_is_kind_of(obj, rb_cPG_Coder)\<close>.\<close>

fun rb_obj_is_kind_of_PG_Coder :: "VALUE \<Rightarrow> bool" where
  "rb_obj_is_kind_of_PG_Coder (Coder _ _) = True"
| "rb_obj_is_kind_of_PG_Coder _ = False"

text \<open>
  \<^verbatim>\<open>rb_obj_classname(obj)\<close>: the name of the object's class (since Ruby 2.4
  integers of either representation are of class \<^verbatim>\<open>Integer\<close>).
\<close>

fun rb_obj_classname :: "VALUE \<Rightarrow> string" where
  "rb_obj_classname Qnil = ''NilClass''"
| "rb_obj_classname Qtrue = ''TrueClass''"
| "rb_obj_classname Qfalse = ''FalseClass''"
| "rb_obj_classname (Fixnum _) = ''Integer''"
| "rb_obj_classname (Bignum _) = ''Integer''"
| "rb_obj_classname (RFloat _) = ''Float''"
| "rb_obj_classname (RComplex _) = ''Complex''"
| "rb_obj_classname (RRational _ _) = ''Rational''"
| "rb_obj_classname (RArray _) = ''Array''"
| "rb_obj_classname (RString _ _) = ''String''"
| "rb_obj_classname (RSymbol _) = ''Symbol''"
| "rb_obj_classname (RObject c _) = c"
| "rb_obj_classname (RClass _) = ''Class''"
| "rb_obj_classname (RModule _) = ''Module''"
| "rb_obj_classname (RRegexp _) = ''Regexp''"
| "rb_obj_classname (RHash _ _) = ''Hash''"
| "rb_obj_classname (RStruct c _) = c"
| "rb_obj_classname (RFile _) = ''File''"
| "rb_obj_classname (RMatch _) = ''MatchData''"
| "rb_obj_classname (RProc _) = ''Proc''"
| "rb_obj_classname (RData c _) = c"
| "rb_obj_classname (Coder c _) = c"

subsection \<open>Errors\<close>

text \<open>
  Every \<^verbatim>\<open>rb_raise\<close> is a value. The constructors carry the arguments of the
  format string:
  \<^item> \<open>ArgError_unknown_mri_type v\<close>: \<^verbatim>\<open>rb_eArgError\<close>, "unknown mri\_type \%s" with
    \<^verbatim>\<open>rb_inspect\<close> of \<open>v\<close>;
  \<^item> \<open>TypeError_invalid_type n c\<close>: \<^verbatim>\<open>rb_eTypeError\<close>, "argument \%d has invalid
    type \%s (should be nil or some kind of PG::Coder)" with \<open>n\<close> and \<open>c\<close>;
  \<^item> \<open>ArgError_null_byte\<close> and \<open>TypeError_no_conversion c\<close>: what
    \<^verbatim>\<open>StringValueCStr\<close> raises for a string with an embedded NUL and for a value
    that is no string;
  \<^item> \<open>FrozenError\<close>: a write to a frozen hash;
  \<^item> \<open>Raised e\<close>: an exception \<open>e\<close> raised by the code that \<^verbatim>\<open>rb_funcall\<close>
    runs.
\<close>

datatype error =
    ArgError_unknown_mri_type VALUE
  | TypeError_invalid_type int string
  | ArgError_null_byte
  | TypeError_no_conversion string
  | FrozenError
  | Raised VALUE

text \<open>
  \<^verbatim>\<open>StringValueCStr(v)\<close>: the C string of a Ruby string. A Ruby string may hold
  NUL bytes, a C string cannot, and the conversion raises for such a string. A value
  that is no string is refused (the conversion through \<^verbatim>\<open>to_str\<close> that an object
  may define is left out).
\<close>

fun StringValueCStr :: "VALUE \<Rightarrow> error + string" where
  "StringValueCStr (RString s _) =
     (if CHR 0x00 \<in> set s then Inl ArgError_null_byte else Inr s)"
| "StringValueCStr v = Inl (TypeError_no_conversion (rb_obj_classname v))"

subsection \<open>The structs\<close>

text \<open>
  Modelled from the spec: \<^verbatim>\<open>t_pg_coder\<close> is declared in pg.h and filled by
  pg\_coder.c, neither of which is part of the sources at hand. The spec has lookup
  return "the static Coder's public handle", so the struct behind a coder object is
  the struct whose \<^verbatim>\<open>coder_obj\<close> member is that object, and
  \<^verbatim>\<open>Data_Get_Struct\<close> hands it out. A \<^verbatim>\<open>t_pg_coder *\<close> is an option, \<open>None\<close>
  being \<^verbatim>\<open>NULL\<close>.
\<close>

record t_pg_coder =
  coder_obj :: VALUE

definition Data_Get_Struct :: "VALUE \<Rightarrow> t_pg_coder" where
  "Data_Get_Struct obj = \<lparr>coder_obj = obj\<rparr>"

text \<open>The function pointers of \<^verbatim>\<open>t_typemap\<close> name the function they point to.\<close>

datatype typemap_func =
    FN_pg_typemap_fit_to_result
  | FN_pg_tmbmt_fit_to_query
  | FN_pg_typemap_fit_to_copy_get
  | FN_pg_typemap_result_value
  | FN_pg_tmbmt_typecast_query_param
  | FN_pg_typemap_typecast_copy_get

record t_typemap =
  fit_to_result :: "typemap_func option"
  fit_to_query :: "typemap_func option"
  fit_to_copy_get :: "typemap_func option"
  typecast_result_value :: "typemap_func option"
  typecast_query_param :: "typemap_func option"
  typecast_copy_get :: "typemap_func option"

text \<open>
  \<^verbatim>\<open>DECLARE_CODER(type)\<close> declares the members \<^verbatim>\<open>coder_##type\<close> and
  \<^verbatim>\<open>ask_##type\<close>; \<open>coder_for cs type\<close> and \<open>ask_for cs type\<close> read them.
\<close>

record pg_tmbmt_converter =
  coder_for :: "mri_type \<Rightarrow> t_pg_coder option"
  ask_for :: "mri_type \<Rightarrow> VALUE"

record t_tmbmt =
  typemap :: t_typemap
  coders :: pg_tmbmt_converter

text \<open>The assignments \<^verbatim>\<open>this->coders.coder_##type = p\<close> and \<^verbatim>\<open>this->coders.ask_##type = v\<close>.\<close>

definition set_coder :: "mri_type \<Rightarrow> t_pg_coder option \<Rightarrow> t_tmbmt \<Rightarrow> t_tmbmt" where
  "set_coder type p this =
     this\<lparr>coders := (coders this)\<lparr>coder_for := (coder_for (coders this))(type := p)\<rparr>\<rparr>"

definition set_ask :: "mri_type \<Rightarrow> VALUE \<Rightarrow> t_tmbmt \<Rightarrow> t_tmbmt" where
  "set_ask type v this =
     this\<lparr>coders := (coders this)\<lparr>ask_for := (ask_for (coders this))(type := v)\<rparr>\<rparr>"

subsection \<open>Calls into Ruby code\<close>

text \<open>
  \<^verbatim>\<open>rb_funcall(recv, mid, 1, arg)\<close> runs a method that the integrator wrote. What it
  does is a parameter \<open>u\<close>: from the receiver, the method name, the argument and the
  struct of the type map as it is when the call starts, it yields the returned value or
  the raised exception, and the struct as the call leaves it (the method may assign to
  the type map it was called for). The call is taken to return or to raise. The world
  also keeps a log of the calls made.
\<close>

type_synonym ID = string

type_synonym ruby_code = "VALUE \<Rightarrow> ID \<Rightarrow> VALUE \<Rightarrow> t_tmbmt \<Rightarrow> (error + VALUE) \<times> t_tmbmt"

record world =
  tmbmt :: t_tmbmt
  funcalls :: "(VALUE \<times> ID \<times> VALUE) list"

definition rb_funcall :: "ruby_code \<Rightarrow> VALUE \<Rightarrow> ID \<Rightarrow> VALUE \<Rightarrow> world \<Rightarrow> (error + VALUE) \<times> world" where
  "rb_funcall u recv mid arg w =
     (case u recv mid arg (tmbmt w) of
        (r, this') \<Rightarrow> (r, \<lparr>tmbmt = this', funcalls = funcalls w @ [(recv, mid, arg)]\<rparr>))"

fun SYM2ID :: "VALUE \<Rightarrow> ID" where
  "SYM2ID (RSymbol name) = name"
| "SYM2ID _ = []"

subsection \<open>pg\_tmbmt\_typecast\_query\_param\<close>

type_synonym c_int = "32 word"

definition CASE_AND_GET :: "mri_type \<Rightarrow> t_tmbmt \<Rightarrow> t_pg_coder option \<times> VALUE" where
  "CASE_AND_GET type this = (coder_for (coders this) type, ask_for (coders this) type)"

text \<open>
  The call that asks for the coder: a symbol names a method of the type map, anything
  else is sent \<^verbatim>\<open>call\<close>.
\<close>

definition ask_for_coder_call ::
    "ruby_code \<Rightarrow> VALUE \<Rightarrow> VALUE \<Rightarrow> VALUE \<Rightarrow> world \<Rightarrow> (error + VALUE) \<times> world" where
  "ask_for_coder_call u self ask_for_coder param_value w =
     (if rb_type ask_for_coder = Listed T_SYMBOL
      then rb_funcall u self (SYM2ID ask_for_coder) param_value w
      else rb_funcall u ask_for_coder ''call'' param_value w)"

text \<open>
  The result is the returned \<^verbatim>\<open>t_pg_coder *\<close> or the raised error, with the world
  after the call. \<^verbatim>\<open>field+1\<close> is an addition of C \<^verbatim>\<open>int\<close>s, printed by
  \<^verbatim>\<open>%d\<close>.
\<close>

definition pg_tmbmt_typecast_query_param ::
    "ruby_code \<Rightarrow> VALUE \<Rightarrow> VALUE \<Rightarrow> c_int \<Rightarrow> world \<Rightarrow> (error + t_pg_coder option) \<times> world" where
  "pg_tmbmt_typecast_query_param u self param_value field w =
     (let this = tmbmt w;
          (p_coder, ask_for_coder) =
            (case rb_type param_value of
               Listed type \<Rightarrow> CASE_AND_GET type this
             | _ \<Rightarrow> (None, Qnil))
      in if \<not> NIL_P ask_for_coder then
           (case ask_for_coder_call u self ask_for_coder param_value w of
              (Inl e, w') \<Rightarrow> (Inl e, w')
            | (Inr obj, w') \<Rightarrow>
                if rb_obj_is_kind_of_PG_Coder obj
                then (Inr (Some (Data_Get_Struct obj)), w')
                else (Inl (TypeError_invalid_type (sint (field + 1)) (rb_obj_classname obj)), w'))
         else (Inr p_coder, w))"

subsection \<open>pg\_tmbmt\_fit\_to\_query\<close>

text \<open>The function returns \<open>self\<close>; the struct goes in and comes out, as no statement writes it.\<close>

definition pg_tmbmt_fit_to_query :: "t_tmbmt \<Rightarrow> VALUE \<Rightarrow> VALUE \<Rightarrow> VALUE \<times> t_tmbmt" where
  "pg_tmbmt_fit_to_query this self params = (self, this)"

subsection \<open>pg\_tmbmt\_s\_allocate\<close>

text \<open>
  \<^verbatim>\<open>Data_Make_Struct\<close> wraps a zeroed struct into a new object of class \<open>klass\<close>;
  the address \<open>addr\<close> of the new object is the allocator's choice. In zeroed memory a
  pointer is \<^verbatim>\<open>NULL\<close> and a \<^verbatim>\<open>VALUE\<close> is \<^verbatim>\<open>Qfalse\<close>.
\<close>

fun rb_class2name :: "VALUE \<Rightarrow> string" where
  "rb_class2name (RClass name) = name"
| "rb_class2name (RModule name) = name"
| "rb_class2name v = rb_obj_classname v"

definition zeroed_tmbmt :: t_tmbmt where
  "zeroed_tmbmt =
     \<lparr>typemap = \<lparr>fit_to_result = None, fit_to_query = None, fit_to_copy_get = None,
                 typecast_result_value = None, typecast_query_param = None,
                 typecast_copy_get = None\<rparr>,
      coders = \<lparr>coder_for = (\<lambda>type. None), ask_for = (\<lambda>type. Qfalse)\<rparr>\<rparr>"

definition Data_Make_Struct :: "VALUE \<Rightarrow> nat \<Rightarrow> VALUE \<times> t_tmbmt" where
  "Data_Make_Struct klass addr = (RData (rb_class2name klass) addr, zeroed_tmbmt)"

definition INIT_VARIABLES :: "mri_type \<Rightarrow> t_tmbmt \<Rightarrow> t_tmbmt" where
  "INIT_VARIABLES type this = set_ask type Qnil (set_coder type None this)"

definition pg_tmbmt_s_allocate :: "VALUE \<Rightarrow> nat \<Rightarrow> VALUE \<times> t_tmbmt" where
  "pg_tmbmt_s_allocate klass addr =
     (case Data_Make_Struct klass addr of
        (self, this) \<Rightarrow>
          (self,
           fold INIT_VARIABLES FOR_EACH_MRI_TYPE
             (this\<lparr>typemap := (typemap this)
                \<lparr>fit_to_result := Some FN_pg_typemap_fit_to_result,
                 fit_to_query := Some FN_pg_tmbmt_fit_to_query,
                 fit_to_copy_get := Some FN_pg_typemap_fit_to_copy_get,
                 typecast_result_value := Some FN_pg_typemap_result_value,
                 typecast_query_param := Some FN_pg_tmbmt_typecast_query_param,
                 typecast_copy_get := Some FN_pg_typemap_typecast_copy_get\<rparr>\<rparr>)))"

subsection \<open>pg\_tmbmt\_aset and pg\_tmbmt\_aref\<close>

text \<open>
  \<^verbatim>\<open>if(0){} FOR_EACH_MRI_TYPE(clause) else{ ... }\<close>: the first clause whose
  \<^verbatim>\<open>strcmp\<close> finds the strings equal runs; \<open>None\<close> is the final \<^verbatim>\<open>else\<close>.
\<close>

fun else_if_chain :: "(mri_type \<Rightarrow> 'a option) \<Rightarrow> mri_type list \<Rightarrow> 'a option" where
  "else_if_chain clause [] = None"
| "else_if_chain clause (type # types) =
     (case clause type of
        Some r \<Rightarrow> Some r
      | None \<Rightarrow> else_if_chain clause types)"

definition COMPARE_AND_ASSIGN :: "string \<Rightarrow> VALUE \<Rightarrow> t_tmbmt \<Rightarrow> mri_type \<Rightarrow> t_tmbmt option" where
  "COMPARE_AND_ASSIGN p_mri_type coder this type =
     (if p_mri_type = stringify type then
        Some (if NIL_P coder then
                set_ask type Qnil (set_coder type None this)
              else if rb_obj_is_kind_of_PG_Coder coder then
                set_ask type Qnil (set_coder type (Some (Data_Get_Struct coder)) this)
              else
                set_ask type coder (set_coder type None this))
      else None)"

text \<open>The result is the returned value or the raised error, with the struct after the call.\<close>

definition pg_tmbmt_aset :: "t_tmbmt \<Rightarrow> VALUE \<Rightarrow> VALUE \<Rightarrow> VALUE \<Rightarrow> (error + VALUE) \<times> t_tmbmt" where
  "pg_tmbmt_aset this self mri_type coder =
     (case StringValueCStr mri_type of
        Inl e \<Rightarrow> (Inl e, this)
      | Inr p_mri_type \<Rightarrow>
          (case else_if_chain (COMPARE_AND_ASSIGN p_mri_type coder this) FOR_EACH_MRI_TYPE of
             Some this' \<Rightarrow> (Inr self, this')
           | None \<Rightarrow> (Inl (ArgError_unknown_mri_type mri_type), this)))"

definition COMPARE_AND_GET :: "string \<Rightarrow> t_tmbmt \<Rightarrow> mri_type \<Rightarrow> VALUE option" where
  "COMPARE_AND_GET p_mri_type this type =
     (if p_mri_type = stringify type then
        Some (case coder_for (coders this) type of
                Some c \<Rightarrow> coder_obj c
              | None \<Rightarrow> ask_for (coders this) type)
      else None)"

definition pg_tmbmt_aref :: "t_tmbmt \<Rightarrow> VALUE \<Rightarrow> VALUE \<Rightarrow> error + VALUE" where
  "pg_tmbmt_aref this self mri_type =
     (case StringValueCStr mri_type of
        Inl e \<Rightarrow> Inl e
      | Inr p_mri_type \<Rightarrow>
          (case else_if_chain (COMPARE_AND_GET p_mri_type this) FOR_EACH_MRI_TYPE of
             Some coder \<Rightarrow> Inr coder
           | None \<Rightarrow> Inl (ArgError_unknown_mri_type mri_type)))"

subsection \<open>pg\_tmbmt\_coders\<close>

text \<open>
  A hash keeps its entries in insertion order; storing under a key that is present
  replaces the value in place. A string key is stored frozen. A frozen hash refuses
  the write.
\<close>

definition rb_hash_new :: VALUE where
  "rb_hash_new = RHash [] False"

definition rb_str_new2 :: "string \<Rightarrow> VALUE" where
  "rb_str_new2 s = RString s False"

fun rb_obj_freeze :: "VALUE \<Rightarrow> VALUE" where
  "rb_obj_freeze (RString s _) = RString s True"
| "rb_obj_freeze (RHash entries _) = RHash entries True"
| "rb_obj_freeze v = v"

fun rb_hash_aset :: "VALUE \<Rightarrow> VALUE \<Rightarrow> VALUE \<Rightarrow> error + VALUE" where
  "rb_hash_aset (RHash entries frozen) key val =
     (if frozen then Inl FrozenError
      else Inr (RHash (AList.update (case key of RString s _ \<Rightarrow> RString s True | _ \<Rightarrow> key)
                         val entries) frozen))"
| "rb_hash_aset h key val = Inl (TypeError_no_conversion (rb_obj_classname h))"

definition ADD_TO_HASH :: "t_tmbmt \<Rightarrow> mri_type \<Rightarrow> VALUE \<Rightarrow> error + VALUE" where
  "ADD_TO_HASH this type hash_coders =
     rb_hash_aset hash_coders (rb_obj_freeze (rb_str_new2 (stringify type)))
       (case coder_for (coders this) type of
          Some c \<Rightarrow> coder_obj c
        | None \<Rightarrow> ask_for (coders this) type)"

text \<open>A sequence of statements, one per type code, that stops at the first raise.\<close>

fun for_each_stmt :: "(mri_type \<Rightarrow> 's \<Rightarrow> error + 's) \<Rightarrow> mri_type list \<Rightarrow> 's \<Rightarrow> error + 's" where
  "for_each_stmt stmt [] s = Inr s"
| "for_each_stmt stmt (type # types) s =
     (case stmt type s of
        Inl e \<Rightarrow> Inl e
      | Inr s' \<Rightarrow> for_each_stmt stmt types s')"

definition pg_tmbmt_coders :: "t_tmbmt \<Rightarrow> VALUE \<Rightarrow> error + VALUE" where
  "pg_tmbmt_coders this self =
     (case for_each_stmt (ADD_TO_HASH this) FOR_EACH_MRI_TYPE rb_hash_new of
        Inl e \<Rightarrow> Inl e
      | Inr hash_coders \<Rightarrow> Inr (rb_obj_freeze hash_coders))"

subsection \<open>Notions used by the properties\<close>

text \<open>
  No member pair is static and dynamic at once: where the coder pointer is set, the
  ask value is nil.
\<close>

definition slot_invariant :: "t_tmbmt \<Rightarrow> bool" where
  "slot_invariant this =
     list_all (\<lambda>type. coder_for (coders this) type = None \<or> NIL_P (ask_for (coders this) type))
       FOR_EACH_MRI_TYPE"

text \<open>
  What a slot shows: the expression
  \<^verbatim>\<open>coder_##type ? coder_##type->coder_obj : ask_##type\<close>, which lookup and
  enumeration both evaluate.
\<close>

definition slot_value :: "t_tmbmt \<Rightarrow> mri_type \<Rightarrow> VALUE" where
  "slot_value this type =
     (case coder_for (coders this) type of
        Some c \<Rightarrow> coder_obj c
      | None \<Rightarrow> ask_for (coders this) type)"

text \<open>
  A caller that performs a sequence of \<^verbatim>\<open>[]=\<close> calls on one type map, each given
  as the pair of its arguments, and stops at the first one that raises.
\<close>

fun assign_calls :: "t_tmbmt \<Rightarrow> VALUE \<Rightarrow> (VALUE \<times> VALUE) list \<Rightarrow> error + t_tmbmt" where
  "assign_calls this self [] = Inr this"
| "assign_calls this self ((mri_type, coder) # calls) =
     (case pg_tmbmt_aset this self mri_type coder of
        (Inl e, this') \<Rightarrow> Inl e
      | (Inr r, this') \<Rightarrow> assign_calls this' self calls)"

text \<open>
  In the words of the specification: the value of the most recent assignment for a
  name in a sequence of calls, or nil if the name was never assigned.
\<close>

definition most_recent_assign :: "(VALUE \<times> VALUE) list \<Rightarrow> string \<Rightarrow> VALUE" where
  "most_recent_assign calls name =
     (case find (\<lambda>(mri_type, coder). StringValueCStr mri_type = Inr name) (rev calls) of
        None \<Rightarrow> Qnil
      | Some (mri_type, coder) \<Rightarrow> coder)"

text \<open>A type map as \<^verbatim>\<open>PG::TypeMapByMriType.new\<close> creates it, and Ruby code for examples.\<close>

definition new_self :: VALUE where
  "new_self = fst (pg_tmbmt_s_allocate (RClass ''PG::TypeMapByMriType'') 0)"

definition new_tmbmt :: t_tmbmt where
  "new_tmbmt = snd (pg_tmbmt_s_allocate (RClass ''PG::TypeMapByMriType'') 0)"

text \<open>
  Example type maps: one with an integer encoder for \<^verbatim>\<open>T_FIXNUM\<close>, one with a
  \<^verbatim>\<open>Proc\<close> for \<^verbatim>\<open>T_STRING\<close>, one with the integer 42
  for \<^verbatim>\<open>T_HASH\<close>.
\<close>

definition int_coder :: VALUE where
  "int_coder = Coder ''PG::TextEncoder::Integer'' 3"

definition fixnum_coder_tmbmt :: t_tmbmt where
  "fixnum_coder_tmbmt = snd (pg_tmbmt_aset new_tmbmt new_self (RString ''T_FIXNUM'' False) int_coder)"

definition string_proc_tmbmt :: t_tmbmt where
  "string_proc_tmbmt = snd (pg_tmbmt_aset new_tmbmt new_self (RString ''T_STRING'' False) (RProc 2))"

definition hash_fixnum_tmbmt :: t_tmbmt where
  "hash_fixnum_tmbmt = snd (pg_tmbmt_aset new_tmbmt new_self (RString ''T_HASH'' False) (Fixnum 42))"

text \<open>A sequence of three assignments, the third replacing the first, and its outcome.\<close>

definition int8_coder :: VALUE where
  "int8_coder = Coder ''PG::BinaryEncoder::Int8'' 4"

definition example_calls :: "(VALUE \<times> VALUE) list" where
  "example_calls =
     [(RString ''T_FIXNUM'' False, int_coder),
      (RString ''T_ARRAY'' False, RProc 2),
      (RString ''T_FIXNUM'' True, int8_coder)]"

definition example_tmbmt :: t_tmbmt where
  "example_tmbmt =
     snd (pg_tmbmt_aset
       (snd (pg_tmbmt_aset fixnum_coder_tmbmt new_self (RString ''T_ARRAY'' False) (RProc 2)))
       new_self (RString ''T_FIXNUM'' True) int8_coder)"

text \<open>A method body that returns \<open>v\<close>, and one that raises \<open>e\<close>; neither assigns.\<close>

definition returning :: "VALUE \<Rightarrow> ruby_code" where
  "returning v recv mid arg this = (Inr v, this)"

definition raising :: "VALUE \<Rightarrow> ruby_code" where
  "raising e recv mid arg this = (Inl (Raised e), this)"

section \<open>Properties\<close>

subsection \<open>The type codes and their names\<close>

lemma stringify_inj: "stringify a = stringify b \<longleftrightarrow> a = b"
  by (cases a; cases b; simp)

lemma FOR_EACH_MRI_TYPE_all: "type \<in> set FOR_EACH_MRI_TYPE"
  by (cases type) (simp_all add: FOR_EACH_MRI_TYPE_def)

lemma stringify_no_NUL: "CHR 0x00 \<notin> set (stringify type)"
  by (cases type) simp_all

subsection \<open>The chain of comparisons\<close>

text \<open>When at most one clause can fire, the chain runs it if its type code is listed.\<close>

lemma else_if_chain_only:
  assumes "\<And>type'. type' \<noteq> type \<Longrightarrow> clause type' = None"
  shows "else_if_chain clause types = (if type \<in> set types then clause type else None)"
proof (induction types)
  case Nil
  show ?case by simp
next
  case (Cons a types)
  show ?case
  proof (cases "a = type")
    case True
    then show ?thesis using Cons assms by (cases "clause type") auto
  next
    case False
    then have "clause a = None" using assms by simp
    then show ?thesis using Cons False by auto
  qed
qed

lemma else_if_chain_none:
  assumes "\<And>type. clause type = None"
  shows "else_if_chain clause types = None"
  using assms by (induction types) (auto split: option.splits)

lemma chain_assign_hit:
  "else_if_chain (COMPARE_AND_ASSIGN (stringify type) coder this) FOR_EACH_MRI_TYPE
     = COMPARE_AND_ASSIGN (stringify type) coder this type"
proof -
  have "\<And>type'. type' \<noteq> type \<Longrightarrow> COMPARE_AND_ASSIGN (stringify type) coder this type' = None"
    by (simp add: COMPARE_AND_ASSIGN_def stringify_inj)
  then show ?thesis
    by (simp add: else_if_chain_only [where type = type] FOR_EACH_MRI_TYPE_all)
qed

lemma chain_get_hit:
  "else_if_chain (COMPARE_AND_GET (stringify type) this) FOR_EACH_MRI_TYPE
     = COMPARE_AND_GET (stringify type) this type"
proof -
  have "\<And>type'. type' \<noteq> type \<Longrightarrow> COMPARE_AND_GET (stringify type) this type' = None"
    by (simp add: COMPARE_AND_GET_def stringify_inj)
  then show ?thesis
    by (simp add: else_if_chain_only [where type = type] FOR_EACH_MRI_TYPE_all)
qed

lemma chain_assign_miss:
  assumes "p \<notin> set (map stringify FOR_EACH_MRI_TYPE)"
  shows "else_if_chain (COMPARE_AND_ASSIGN p coder this) FOR_EACH_MRI_TYPE = None"
proof (rule else_if_chain_none)
  fix type
  have "p \<noteq> stringify type" using assms FOR_EACH_MRI_TYPE_all [of type] by auto
  then show "COMPARE_AND_ASSIGN p coder this type = None"
    by (simp add: COMPARE_AND_ASSIGN_def)
qed

lemma chain_get_miss:
  assumes "p \<notin> set (map stringify FOR_EACH_MRI_TYPE)"
  shows "else_if_chain (COMPARE_AND_GET p this) FOR_EACH_MRI_TYPE = None"
proof (rule else_if_chain_none)
  fix type
  have "p \<noteq> stringify type" using assms FOR_EACH_MRI_TYPE_all [of type] by auto
  then show "COMPARE_AND_GET p this type = None"
    by (simp add: COMPARE_AND_GET_def)
qed

subsection \<open>Assignment and lookup under a valid name\<close>

lemma coders_set [simp]:
  "coder_for (coders (set_coder type p this)) type' =
     (if type' = type then p else coder_for (coders this) type')"
  "coder_for (coders (set_ask type v this)) type' = coder_for (coders this) type'"
  "ask_for (coders (set_coder type p this)) type' = ask_for (coders this) type'"
  "ask_for (coders (set_ask type v this)) type' =
     (if type' = type then v else ask_for (coders this) type')"
  by (simp_all add: set_coder_def set_ask_def)

lemma aset_valid:
  "pg_tmbmt_aset this self (RString (stringify type) fr) coder =
     (Inr self,
      if NIL_P coder then set_ask type Qnil (set_coder type None this)
      else if rb_obj_is_kind_of_PG_Coder coder
        then set_ask type Qnil (set_coder type (Some (Data_Get_Struct coder)) this)
      else set_ask type coder (set_coder type None this))"
  by (simp add: pg_tmbmt_aset_def stringify_no_NUL chain_assign_hit COMPARE_AND_ASSIGN_def)

lemma aref_valid:
  "pg_tmbmt_aref this self (RString (stringify type) fr) =
     Inr (case coder_for (coders this) type of
            Some c \<Rightarrow> coder_obj c
          | None \<Rightarrow> ask_for (coders this) type)"
  by (simp add: pg_tmbmt_aref_def stringify_no_NUL chain_get_hit COMPARE_AND_GET_def)

lemma slot_invariant_iff:
  "slot_invariant this \<longleftrightarrow>
     (\<forall>type. coder_for (coders this) type = None \<or> ask_for (coders this) type = Qnil)"
  by (auto simp: slot_invariant_def list_all_iff FOR_EACH_MRI_TYPE_all NIL_P_def)


lemma valid_names: "set (map stringify FOR_EACH_MRI_TYPE) = range stringify"
  using FOR_EACH_MRI_TYPE_all by auto

text \<open>A call of \<^verbatim>\<open>[]=\<close> either raises and leaves the struct, or was given a listed name.\<close>

lemma aset_cases:
  obtains (raised) e where "pg_tmbmt_aset this self mri_type coder = (Inl e, this)"
  | (assigned) type fr where "mri_type = RString (stringify type) fr"
proof (cases "StringValueCStr mri_type")
  case (Inl e)
  then have "pg_tmbmt_aset this self mri_type coder = (Inl e, this)"
    by (simp add: pg_tmbmt_aset_def)
  then show ?thesis by (rule raised)
next
  case (Inr p)
  then obtain fr where str: "mri_type = RString p fr"
    by (cases mri_type) (auto split: if_splits)
  show ?thesis
  proof (cases "p \<in> set (map stringify FOR_EACH_MRI_TYPE)")
    case True
    then obtain type where "p = stringify type" by auto
    with str show ?thesis by (auto intro: assigned)
  next
    case False
    then have "pg_tmbmt_aset this self mri_type coder
                 = (Inl (ArgError_unknown_mri_type mri_type), this)"
      using Inr by (simp add: pg_tmbmt_aset_def chain_assign_miss)
    then show ?thesis by (rule raised)
  qed
qed

lemma slot_value_aset_valid:
  "slot_value (snd (pg_tmbmt_aset this self (RString (stringify type) fr) coder)) type' =
     (if type' = type then coder else slot_value this type')"
proof (cases "rb_obj_is_kind_of_PG_Coder coder")
  case True
  then have "coder \<noteq> Qnil" by auto
  with True show ?thesis
    by (simp add: aset_valid slot_value_def NIL_P_def Data_Get_Struct_def split: option.split)
next
  case False
  then show ?thesis
    by (simp add: aset_valid slot_value_def NIL_P_def split: option.split)
qed

subsection \<open>A new type map\<close>

lemma allocate_slots:
  "coder_for (coders (snd (pg_tmbmt_s_allocate klass addr))) type = None"
  "ask_for (coders (snd (pg_tmbmt_s_allocate klass addr))) type = Qnil"
  by (cases type;
      simp add: pg_tmbmt_s_allocate_def Data_Make_Struct_def FOR_EACH_MRI_TYPE_def
        INIT_VARIABLES_def)+

lemma new_tmbmt_slots [simp]:
  "coder_for (coders new_tmbmt) type = None"
  "ask_for (coders new_tmbmt) type = Qnil"
  by (simp_all add: new_tmbmt_def allocate_slots)

subsection \<open>The invariant\<close>

lemma slot_invariant_allocate: "slot_invariant (snd (pg_tmbmt_s_allocate klass addr))"
  by (simp add: slot_invariant_iff allocate_slots)

lemma slot_invariant_aset:
  assumes "slot_invariant this"
  shows "slot_invariant (snd (pg_tmbmt_aset this self mri_type coder))"
proof (cases rule: aset_cases [of this self mri_type coder])
  case (raised e)
  with assms show ?thesis by simp
next
  case (assigned type fr)
  with assms show ?thesis
    by (simp add: aset_valid slot_invariant_iff)
qed

text \<open>
  Dispatch writes no member of the struct: what the world holds afterwards is what it
  held before, or what the one call into Ruby code left.
\<close>

lemma typecast_tmbmt_after:
  "tmbmt (snd (pg_tmbmt_typecast_query_param u self param_value field w)) = tmbmt w
   \<or> (\<exists>recv mid. tmbmt (snd (pg_tmbmt_typecast_query_param u self param_value field w))
         = snd (u recv mid param_value (tmbmt w)))"
proof -
  have call: "\<exists>recv mid. tmbmt (snd (ask_for_coder_call u self ask param_value w))
                = snd (u recv mid param_value (tmbmt w))" for ask
  proof (cases "rb_type ask = Listed T_SYMBOL")
    case True
    then have "tmbmt (snd (ask_for_coder_call u self ask param_value w))
                 = snd (u self (SYM2ID ask) param_value (tmbmt w))"
      by (simp add: ask_for_coder_call_def rb_funcall_def split: prod.splits)
    then show ?thesis by blast
  next
    case False
    then have "tmbmt (snd (ask_for_coder_call u self ask param_value w))
                 = snd (u ask ''call'' param_value (tmbmt w))"
      by (simp add: ask_for_coder_call_def rb_funcall_def split: prod.splits)
    then show ?thesis by blast
  qed
  show ?thesis
  proof (cases "rb_type param_value")
    case (Listed type)
    show ?thesis
    proof (cases "NIL_P (ask_for (coders (tmbmt w)) type)")
      case True
      with Listed show ?thesis
        by (simp add: pg_tmbmt_typecast_query_param_def CASE_AND_GET_def)
    next
      case False
      let ?ask = "ask_for (coders (tmbmt w)) type"
      have "tmbmt (snd (pg_tmbmt_typecast_query_param u self param_value field w))
              = tmbmt (snd (ask_for_coder_call u self ?ask param_value w))"
        using Listed False
        by (simp add: pg_tmbmt_typecast_query_param_def CASE_AND_GET_def
            split: prod.splits sum.splits)
      with call [of ?ask] show ?thesis by auto
    qed
  qed (simp_all add: pg_tmbmt_typecast_query_param_def NIL_P_def)
qed

subsection \<open>The example type maps\<close>

lemma fixnum_coder_tmbmt_slots [simp]:
  "coder_for (coders fixnum_coder_tmbmt) type =
     (if type = T_FIXNUM then Some (Data_Get_Struct int_coder) else None)"
  "ask_for (coders fixnum_coder_tmbmt) type = Qnil"
  using aset_valid [of new_tmbmt new_self T_FIXNUM False int_coder]
  by (simp_all add: fixnum_coder_tmbmt_def int_coder_def NIL_P_def)

lemma string_proc_tmbmt_slots [simp]:
  "coder_for (coders string_proc_tmbmt) type = None"
  "ask_for (coders string_proc_tmbmt) type = (if type = T_STRING then RProc 2 else Qnil)"
  using aset_valid [of new_tmbmt new_self T_STRING False "RProc 2"]
  by (simp_all add: string_proc_tmbmt_def NIL_P_def)

lemma hash_fixnum_tmbmt_slots [simp]:
  "coder_for (coders hash_fixnum_tmbmt) type = None"
  "ask_for (coders hash_fixnum_tmbmt) type = (if type = T_HASH then Fixnum 42 else Qnil)"
  using aset_valid [of new_tmbmt new_self T_HASH False "Fixnum 42"]
  by (simp_all add: hash_fixnum_tmbmt_def NIL_P_def)

subsection \<open>Dispatch\<close>

text \<open>Where the index is not \<^verbatim>\<open>INT_MAX\<close>, \<^verbatim>\<open>field+1\<close> is the index plus one.\<close>

lemma sint_field_plus_1:
  fixes field :: c_int
  assumes "sint field < 2147483647"
  shows "sint (field + 1) = sint field + 1"
proof -
  have lo: "- (2 ^ 31) \<le> sint field" using sint_ge [of field] by simp
  have "sint (field + 1) = signed_take_bit 31 (sint field + sint (1 :: c_int))"
    by (simp add: sint_word_ariths)
  also have "\<dots> = signed_take_bit 31 (sint field + 1)" by simp
  also have "\<dots> = sint field + 1"
    using lo assms by (simp add: signed_take_bit_int_eq_self)
  finally show ?thesis .
qed

subsection \<open>Sequences of assignments and the enumeration\<close>

lemma find_snoc:
  "find P (xs @ [x]) =
     (case find P xs of Some y \<Rightarrow> Some y | None \<Rightarrow> if P x then Some x else None)"
  by (induction xs) auto

lemma assign_calls_slot_value:
  assumes "assign_calls this0 self calls = Inr this"
  shows "slot_value this type =
           (case find (\<lambda>(mri_type, coder). StringValueCStr mri_type = Inr (stringify type))
                   (rev calls) of
              None \<Rightarrow> slot_value this0 type
            | Some (mri_type, coder) \<Rightarrow> coder)"
  using assms
proof (induction calls arbitrary: this0)
  case Nil
  then show ?case by simp
next
  case (Cons call calls)
  obtain mri_type coder where call: "call = (mri_type, coder)" by (cases call)
  let ?this1 = "snd (pg_tmbmt_aset this0 self mri_type coder)"
  from Cons.prems call have ok: "\<exists>r. fst (pg_tmbmt_aset this0 self mri_type coder) = Inr r"
    and rest: "assign_calls ?this1 self calls = Inr this"
    by (auto split: prod.splits sum.splits)
  from ok obtain type' fr where name: "mri_type = RString (stringify type') fr"
    by (cases rule: aset_cases [of this0 self mri_type coder]) auto
  have step: "slot_value ?this1 type = (if type = type' then coder else slot_value this0 type)"
    by (simp add: name slot_value_aset_valid)
  have test: "(StringValueCStr mri_type = Inr (stringify type)) = (type = type')"
    by (auto simp add: name stringify_no_NUL stringify_inj)
  let ?P = "\<lambda>(mri_type, coder). StringValueCStr mri_type = Inr (stringify type)"
  have P: "?P (mri_type, coder) = (type = type')" using test by simp
  have found: "find ?P (rev (call # calls)) =
          (case find ?P (rev calls) of
             Some y \<Rightarrow> Some y
           | None \<Rightarrow> if type = type' then Some (mri_type, coder) else None)"
    unfolding call rev.simps find_snoc P ..
  show ?case
  proof (cases "find ?P (rev calls)")
    case None
    with Cons.IH [OF rest] have "slot_value this type = slot_value ?this1 type" by simp
    with step found None show ?thesis by simp
  next
    case (Some y)
    with Cons.IH [OF rest] found show ?thesis by simp
  qed
qed

lemma coders_eval:
  "pg_tmbmt_coders this self =
     Inr (RHash (map (\<lambda>type. (RString (stringify type) True, slot_value this type))
                  FOR_EACH_MRI_TYPE) True)"
  by (simp add: pg_tmbmt_coders_def FOR_EACH_MRI_TYPE_def ADD_TO_HASH_def rb_hash_new_def
      rb_str_new2_def slot_value_def)

lemma aset_valid_fst:
  "fst (pg_tmbmt_aset this self (RString (stringify type) fr) coder) = Inr self"
  by (simp add: aset_valid)

lemma assign_calls_Cons:
  "assign_calls this self ((mri_type, coder) # calls) =
     (case fst (pg_tmbmt_aset this self mri_type coder) of
        Inl e \<Rightarrow> Inl e
      | Inr r \<Rightarrow> assign_calls (snd (pg_tmbmt_aset this self mri_type coder)) self calls)"
  by (cases "pg_tmbmt_aset this self mri_type coder") (simp split: sum.split)

lemma example_calls_succeed:
  "assign_calls new_tmbmt new_self example_calls = Inr example_tmbmt"
  using aset_valid_fst [of new_tmbmt new_self T_FIXNUM False int_coder]
    aset_valid_fst [of fixnum_coder_tmbmt new_self T_ARRAY False "RProc 2"]
    aset_valid_fst [of "snd (pg_tmbmt_aset fixnum_coder_tmbmt new_self
        (RString ''T_ARRAY'' False) (RProc 2))" new_self T_FIXNUM True int8_coder]
  by (simp add: example_calls_def example_tmbmt_def fixnum_coder_tmbmt_def assign_calls_Cons
      del: assign_calls.simps(2))
subsection \<open>The claims\<close>

text \<open>
  C1. The claim: where the slot of the value's type holds a resolver and the resolver
  returns nil, dispatch yields no coder and raises nothing. The code tests the returned
  object with \<^verbatim>\<open>rb_obj_is_kind_of\<close> only, and nil is no \<^verbatim>\<open>PG::Coder\<close>: with a
  \<^verbatim>\<open>Proc\<close> for \<^verbatim>\<open>T_STRING\<close> that returns nil, dispatching a string as the
  first parameter raises the \<^verbatim>\<open>TypeError\<close> for argument 1 of class
  \<^verbatim>\<open>NilClass\<close>, the very message that says nil is allowed.
\<close>

theorem typecast_nil_resolver_raises:
  "pg_tmbmt_typecast_query_param (returning Qnil) new_self (RString ''some text'' False) 0
     \<lparr>tmbmt = string_proc_tmbmt, funcalls = []\<rparr>
   = (Inl (TypeError_invalid_type 1 ''NilClass''),
      \<lparr>tmbmt = string_proc_tmbmt,
       funcalls = [(RProc 2, ''call'', RString ''some text'' False)]\<rparr>)"
  by (simp add: pg_tmbmt_typecast_query_param_def CASE_AND_GET_def NIL_P_def Let_def
      ask_for_coder_call_def rb_funcall_def returning_def)

text \<open>
  C2. Where the slot of the value's type holds a resolver and the call of the resolver
  returns an object that is neither nil nor a coder, dispatch raises the
  \<^verbatim>\<open>TypeError\<close> that carries the field index plus one and the class name of the
  returned object. The index is that of a parameter of a call, so it is below
  \<^verbatim>\<open>INT_MAX\<close>. The witness is the example of the specification: the resolver returns
  42 for the string at index 2, and the error reports argument 3 and class Integer.
\<close>

theorem typecast_type_mismatch:
  assumes "rb_type param_value = Listed type"
      and "ask_for (coders (tmbmt w)) type = ask"
      and "ask \<noteq> Qnil"
      and "ask_for_coder_call u self ask param_value w = (Inr obj, w')"
      and "obj \<noteq> Qnil"
      and "\<not> rb_obj_is_kind_of_PG_Coder obj"
      and "sint field < 2147483647"
  shows "pg_tmbmt_typecast_query_param u self param_value field w =
           (Inl (TypeError_invalid_type (sint field + 1) (rb_obj_classname obj)), w')"
  using assms
  by (simp add: pg_tmbmt_typecast_query_param_def CASE_AND_GET_def NIL_P_def sint_field_plus_1)

theorem typecast_type_mismatch_witness:
  "rb_type (RString ''some text'' False) = Listed T_STRING
   \<and> ask_for (coders string_proc_tmbmt) T_STRING = RProc 2
   \<and> RProc 2 \<noteq> Qnil
   \<and> ask_for_coder_call (returning (Fixnum 42)) new_self (RProc 2) (RString ''some text'' False)
        \<lparr>tmbmt = string_proc_tmbmt, funcalls = []\<rparr>
      = (Inr (Fixnum 42),
         \<lparr>tmbmt = string_proc_tmbmt,
          funcalls = [(RProc 2, ''call'', RString ''some text'' False)]\<rparr>)
   \<and> Fixnum 42 \<noteq> Qnil
   \<and> \<not> rb_obj_is_kind_of_PG_Coder (Fixnum 42)
   \<and> sint (2 :: c_int) < 2147483647
   \<and> pg_tmbmt_typecast_query_param (returning (Fixnum 42)) new_self
        (RString ''some text'' False) 2 \<lparr>tmbmt = string_proc_tmbmt, funcalls = []\<rparr>
      = (Inl (TypeError_invalid_type 3 ''Integer''),
         \<lparr>tmbmt = string_proc_tmbmt,
          funcalls = [(RProc 2, ''call'', RString ''some text'' False)]\<rparr>)"
proof -
  have call: "ask_for_coder_call (returning (Fixnum 42)) new_self (RProc 2)
        (RString ''some text'' False) \<lparr>tmbmt = string_proc_tmbmt, funcalls = []\<rparr>
      = (Inr (Fixnum 42),
         \<lparr>tmbmt = string_proc_tmbmt,
          funcalls = [(RProc 2, ''call'', RString ''some text'' False)]\<rparr>)"
    by (simp add: ask_for_coder_call_def rb_funcall_def returning_def)
  have slot: "ask_for (coders (tmbmt \<lparr>tmbmt = string_proc_tmbmt, funcalls = []\<rparr>)) T_STRING
                = RProc 2"
    by simp
  have "pg_tmbmt_typecast_query_param (returning (Fixnum 42)) new_self
        (RString ''some text'' False) 2 \<lparr>tmbmt = string_proc_tmbmt, funcalls = []\<rparr>
      = (Inl (TypeError_invalid_type (sint (2 :: c_int) + 1) (rb_obj_classname (Fixnum 42))),
         \<lparr>tmbmt = string_proc_tmbmt,
          funcalls = [(RProc 2, ''call'', RString ''some text'' False)]\<rparr>)"
    by (rule typecast_type_mismatch [OF _ slot _ call]) simp_all
  with call show ?thesis by simp
qed

text \<open>
  C3. For every value whose type code is none of the eighteen listed ones, dispatch
  returns no coder, raises nothing, and leaves the world as it was: no call into Ruby
  code is logged and the struct is unchanged.
\<close>

theorem typecast_unlisted_type:
  assumes "rb_type param_value \<notin> Listed ` set FOR_EACH_MRI_TYPE"
  shows "pg_tmbmt_typecast_query_param u self param_value field w = (Inr None, w)"
proof (cases "rb_type param_value")
  case (Listed type)
  then show ?thesis using assms FOR_EACH_MRI_TYPE_all [of type] by auto
qed (simp_all add: pg_tmbmt_typecast_query_param_def NIL_P_def)

theorem typecast_unlisted_type_witness:
  "rb_type (RMatch 5) \<notin> Listed ` set FOR_EACH_MRI_TYPE
   \<and> pg_tmbmt_typecast_query_param (raising Qtrue) new_self (RMatch 5) 0
        \<lparr>tmbmt = string_proc_tmbmt, funcalls = []\<rparr>
      = (Inr None, \<lparr>tmbmt = string_proc_tmbmt, funcalls = []\<rparr>)"
proof -
  have unlisted: "rb_type (RMatch 5) \<notin> Listed ` set FOR_EACH_MRI_TYPE"
    by (simp add: FOR_EACH_MRI_TYPE_def)
  show ?thesis
    using unlisted typecast_unlisted_type [OF unlisted, of "raising Qtrue" new_self 0
        "\<lparr>tmbmt = string_proc_tmbmt, funcalls = []\<rparr>"]
    by simp
qed

text \<open>
  C4, as amended. For every string that is none of the eighteen names and every value,
  assignment raises an argument error and leaves the struct, hence every slot, as it
  was, and lookup raises the same error. The error names the string when the string
  has no NUL byte; a string with an embedded NUL byte is refused by
  \<^verbatim>\<open>StringValueCStr\<close> before any comparison, with the argument error for the NUL
  byte.
\<close>

theorem aset_unknown_name:
  assumes "s \<notin> set (map stringify FOR_EACH_MRI_TYPE)"
  shows "pg_tmbmt_aset this self (RString s fr) coder =
           (Inl (if CHR 0x00 \<in> set s then ArgError_null_byte
                 else ArgError_unknown_mri_type (RString s fr)), this)
       \<and> pg_tmbmt_aref this self (RString s fr) =
           Inl (if CHR 0x00 \<in> set s then ArgError_null_byte
                else ArgError_unknown_mri_type (RString s fr))"
  using assms
  by (simp add: pg_tmbmt_aset_def pg_tmbmt_aref_def chain_assign_miss chain_get_miss)

theorem aset_unknown_name_witness:
  "''T_NIL'' \<notin> set (map stringify FOR_EACH_MRI_TYPE)
   \<and> pg_tmbmt_aset fixnum_coder_tmbmt new_self (RString ''T_NIL'' False) int_coder =
        (Inl (ArgError_unknown_mri_type (RString ''T_NIL'' False)), fixnum_coder_tmbmt)
   \<and> pg_tmbmt_aref fixnum_coder_tmbmt new_self (RString ''T_NIL'' False) =
        Inl (ArgError_unknown_mri_type (RString ''T_NIL'' False))"
proof -
  have unknown: "''T_NIL'' \<notin> set (map stringify FOR_EACH_MRI_TYPE)"
    by (simp add: FOR_EACH_MRI_TYPE_def)
  show ?thesis
    using unknown aset_unknown_name [OF unknown, of fixnum_coder_tmbmt new_self False int_coder]
    by simp
qed

text \<open>
  The claim as it was stated has every such string named by the error. The string
  \<^verbatim>\<open>T_FIXNUM\<close> followed by a NUL byte is none of the eighteen names, and the error
  that assignment raises for it is not the one that names it.
\<close>

theorem aset_unknown_name_counterexample:
  "''T_FIXNUM'' @ [CHR 0x00] \<notin> set (map stringify FOR_EACH_MRI_TYPE)
   \<and> fst (pg_tmbmt_aset new_tmbmt new_self (RString (''T_FIXNUM'' @ [CHR 0x00]) False) int_coder)
       = Inl ArgError_null_byte
   \<and> ArgError_null_byte
       \<noteq> ArgError_unknown_mri_type (RString (''T_FIXNUM'' @ [CHR 0x00]) False)"
  by (simp add: FOR_EACH_MRI_TYPE_def pg_tmbmt_aset_def)

text \<open>
  C5. Assignment and lookup round-trip: for every valid type name, looking the name up
  after assigning nil yields nil, and looking it up after assigning a coder \<open>c\<close> yields
  \<open>c\<close> itself; both assignments succeed.
\<close>

theorem assign_lookup_roundtrip:
  assumes "name \<in> set (map stringify FOR_EACH_MRI_TYPE)"
  shows "fst (pg_tmbmt_aset this self (RString name fr) Qnil) = Inr self
       \<and> pg_tmbmt_aref (snd (pg_tmbmt_aset this self (RString name fr) Qnil)) self
            (RString name fr') = Inr Qnil
       \<and> (rb_obj_is_kind_of_PG_Coder c \<longrightarrow>
            fst (pg_tmbmt_aset this self (RString name fr) c) = Inr self
          \<and> pg_tmbmt_aref (snd (pg_tmbmt_aset this self (RString name fr) c)) self
               (RString name fr') = Inr c)"
proof -
  from assms obtain type where name: "name = stringify type" by auto
  have "c \<noteq> Qnil" if "rb_obj_is_kind_of_PG_Coder c" using that by auto
  then show ?thesis
    by (simp add: name aset_valid aref_valid NIL_P_def Data_Get_Struct_def)
qed

theorem assign_lookup_roundtrip_witness:
  "''T_ARRAY'' \<in> set (map stringify FOR_EACH_MRI_TYPE)
   \<and> rb_obj_is_kind_of_PG_Coder (Coder ''PG::TextEncoder::Array'' 7)
   \<and> pg_tmbmt_aref (snd (pg_tmbmt_aset new_tmbmt new_self (RString ''T_ARRAY'' False) Qnil))
        new_self (RString ''T_ARRAY'' False) = Inr Qnil
   \<and> pg_tmbmt_aref (snd (pg_tmbmt_aset new_tmbmt new_self (RString ''T_ARRAY'' False)
          (Coder ''PG::TextEncoder::Array'' 7)))
        new_self (RString ''T_ARRAY'' False) = Inr (Coder ''PG::TextEncoder::Array'' 7)"
proof -
  have valid: "''T_ARRAY'' \<in> set (map stringify FOR_EACH_MRI_TYPE)"
    by (simp add: FOR_EACH_MRI_TYPE_def)
  show ?thesis
    using valid
      assign_lookup_roundtrip [OF valid, of new_tmbmt new_self False False
        "Coder ''PG::TextEncoder::Array'' 7"]
    by simp
qed

text \<open>
  C6. No slot is ever static and dynamic at once. A new type map has every slot empty
  and satisfies the invariant. Every call of assignment, raising or not, preserves the
  invariant; a call that succeeds was given the name of one type code, leaves that
  slot empty (for nil), static (for a coder, the ask value cleared) or dynamic (for any
  other value, the coder pointer cleared), and leaves every other slot as it was.
  Dispatch preserves the invariant when the Ruby code it calls does, and fitting to a
  query leaves the struct alone. Lookup and enumeration only read the struct.
\<close>

theorem slot_invariant_preserved:
  "slot_invariant (snd (pg_tmbmt_s_allocate klass addr))
   \<and> (\<forall>type. coder_for (coders (snd (pg_tmbmt_s_allocate klass addr))) type = None
             \<and> ask_for (coders (snd (pg_tmbmt_s_allocate klass addr))) type = Qnil)
   \<and> (slot_invariant this \<longrightarrow> slot_invariant (snd (pg_tmbmt_aset this self mri_type coder)))
   \<and> (fst (pg_tmbmt_aset this self mri_type coder) = Inr r \<longrightarrow>
        (\<exists>type. StringValueCStr mri_type = Inr (stringify type)
           \<and> (coder_for (coders (snd (pg_tmbmt_aset this self mri_type coder))) type,
               ask_for (coders (snd (pg_tmbmt_aset this self mri_type coder))) type)
              = (if coder = Qnil then (None, Qnil)
                 else if rb_obj_is_kind_of_PG_Coder coder then (Some (Data_Get_Struct coder), Qnil)
                 else (None, coder))
           \<and> (\<forall>type'. type' \<noteq> type \<longrightarrow>
                 coder_for (coders (snd (pg_tmbmt_aset this self mri_type coder))) type'
                   = coder_for (coders this) type'
               \<and> ask_for (coders (snd (pg_tmbmt_aset this self mri_type coder))) type'
                   = ask_for (coders this) type')))
   \<and> (slot_invariant (tmbmt w)
        \<and> (\<forall>recv mid arg this'. slot_invariant this' \<longrightarrow> slot_invariant (snd (u recv mid arg this')))
        \<longrightarrow> slot_invariant
              (tmbmt (snd (pg_tmbmt_typecast_query_param u self param_value field w))))
   \<and> snd (pg_tmbmt_fit_to_query this self params) = this"
proof -
  have assigned: "\<exists>type. StringValueCStr mri_type = Inr (stringify type)
           \<and> (coder_for (coders (snd (pg_tmbmt_aset this self mri_type coder))) type,
               ask_for (coders (snd (pg_tmbmt_aset this self mri_type coder))) type)
              = (if coder = Qnil then (None, Qnil)
                 else if rb_obj_is_kind_of_PG_Coder coder then (Some (Data_Get_Struct coder), Qnil)
                 else (None, coder))
           \<and> (\<forall>type'. type' \<noteq> type \<longrightarrow>
                 coder_for (coders (snd (pg_tmbmt_aset this self mri_type coder))) type'
                   = coder_for (coders this) type'
               \<and> ask_for (coders (snd (pg_tmbmt_aset this self mri_type coder))) type'
                   = ask_for (coders this) type')"
    if ok: "fst (pg_tmbmt_aset this self mri_type coder) = Inr r"
  proof (cases rule: aset_cases [of this self mri_type coder])
    case (raised e)
    with ok show ?thesis by simp
  next
    case (assigned type fr)
    have "StringValueCStr mri_type = Inr (stringify type)"
      by (simp add: assigned stringify_no_NUL)
    then show ?thesis
      by (intro exI [of _ type]) (simp add: assigned aset_valid NIL_P_def)
  qed
  have dispatch: "slot_invariant
          (tmbmt (snd (pg_tmbmt_typecast_query_param u self param_value field w)))"
    if inv: "slot_invariant (tmbmt w)"
      and code: "\<forall>recv mid arg this'. slot_invariant this' \<longrightarrow>
                   slot_invariant (snd (u recv mid arg this'))"
    using typecast_tmbmt_after [of u self param_value field w] inv code by auto
  show ?thesis
    using assigned dispatch
    by (simp add: slot_invariant_allocate allocate_slots slot_invariant_aset
        pg_tmbmt_fit_to_query_def)
qed

theorem slot_invariant_preserved_witness:
  "slot_invariant new_tmbmt
   \<and> fst (pg_tmbmt_aset new_tmbmt new_self (RString ''T_STRING'' False) (RProc 2)) = Inr new_self
   \<and> slot_invariant string_proc_tmbmt
   \<and> slot_invariant
       (tmbmt (snd (pg_tmbmt_typecast_query_param (returning int_coder) new_self
          (RString ''some text'' False) 0 \<lparr>tmbmt = string_proc_tmbmt, funcalls = []\<rparr>)))"
proof -
  have new: "slot_invariant new_tmbmt"
    using slot_invariant_preserved [of "RClass ''PG::TypeMapByMriType''" 0]
    by (simp add: new_tmbmt_def)
  have ok: "fst (pg_tmbmt_aset new_tmbmt new_self (RString ''T_STRING'' False) (RProc 2))
              = Inr new_self"
    by (simp add: pg_tmbmt_aset_def FOR_EACH_MRI_TYPE_def COMPARE_AND_ASSIGN_def)
  have proc: "slot_invariant string_proc_tmbmt"
    using new
      slot_invariant_preserved [where this = new_tmbmt and self = new_self
        and mri_type = "RString ''T_STRING'' False" and coder = "RProc 2"]
    by (simp add: string_proc_tmbmt_def)
  have code: "\<forall>recv mid arg this'. slot_invariant this' \<longrightarrow>
                slot_invariant (snd (returning int_coder recv mid arg this'))"
    by (simp add: returning_def)
  have "slot_invariant
       (tmbmt (snd (pg_tmbmt_typecast_query_param (returning int_coder) new_self
          (RString ''some text'' False) 0 \<lparr>tmbmt = string_proc_tmbmt, funcalls = []\<rparr>)))"
    using proc code
      slot_invariant_preserved [where w = "\<lparr>tmbmt = string_proc_tmbmt, funcalls = []\<rparr>"
        and u = "returning int_coder" and self = new_self
        and param_value = "RString ''some text'' False" and field = 0]
    by simp
  with new ok proc show ?thesis by simp
qed

text \<open>
  C7. After a sequence of assignments to a new type map, all of which succeeded, the
  enumeration returns a frozen hash whose entries are, in the order of the eighteen type
  codes, the frozen name of the type code with the value of the most recent assignment
  for that name, nil if there was none. The keys are distinct, a write to the hash is
  refused, and lookup reports the same value for each name.
\<close>

theorem coders_after_assign_calls:
  assumes "assign_calls (snd (pg_tmbmt_s_allocate klass addr)) self calls = Inr this"
  shows "pg_tmbmt_coders this self =
           Inr (RHash (map (\<lambda>type. (RString (stringify type) True,
                                      most_recent_assign calls (stringify type)))
                         FOR_EACH_MRI_TYPE) True)
       \<and> distinct (map (\<lambda>type. RString (stringify type) True) FOR_EACH_MRI_TYPE)
       \<and> length FOR_EACH_MRI_TYPE = 18
       \<and> (\<forall>entries key val. pg_tmbmt_coders this self = Inr (RHash entries True) \<longrightarrow>
             rb_hash_aset (RHash entries True) key val = Inl FrozenError)
       \<and> (\<forall>type fr. pg_tmbmt_aref this self (RString (stringify type) fr)
             = Inr (most_recent_assign calls (stringify type)))"
proof -
  have "slot_value (snd (pg_tmbmt_s_allocate klass addr)) type = Qnil" for type
    by (simp add: slot_value_def allocate_slots)
  then have slots: "slot_value this type = most_recent_assign calls (stringify type)" for type
    using assign_calls_slot_value [OF assms, of type]
    by (simp add: most_recent_assign_def split: option.splits)
  have lookup: "pg_tmbmt_aref this self (RString (stringify type) fr)
                  = Inr (most_recent_assign calls (stringify type))" for type fr
    using slots [of type] by (simp add: aref_valid slot_value_def)
  have keys: "distinct (map (\<lambda>type. RString (stringify type) True) FOR_EACH_MRI_TYPE)"
    by (simp add: FOR_EACH_MRI_TYPE_def)
  show ?thesis
    using lookup keys by (simp add: coders_eval slots) (simp add: FOR_EACH_MRI_TYPE_def)
qed

theorem coders_after_assign_calls_witness:
  "assign_calls (snd (pg_tmbmt_s_allocate (RClass ''PG::TypeMapByMriType'') 0)) new_self
     example_calls = Inr example_tmbmt
   \<and> pg_tmbmt_coders example_tmbmt new_self =
       Inr (RHash
         [(RString ''T_FIXNUM'' True, int8_coder), (RString ''T_TRUE'' True, Qnil),
          (RString ''T_FALSE'' True, Qnil), (RString ''T_FLOAT'' True, Qnil),
          (RString ''T_BIGNUM'' True, Qnil), (RString ''T_COMPLEX'' True, Qnil),
          (RString ''T_RATIONAL'' True, Qnil), (RString ''T_ARRAY'' True, RProc 2),
          (RString ''T_STRING'' True, Qnil), (RString ''T_SYMBOL'' True, Qnil),
          (RString ''T_OBJECT'' True, Qnil), (RString ''T_CLASS'' True, Qnil),
          (RString ''T_MODULE'' True, Qnil), (RString ''T_REGEXP'' True, Qnil),
          (RString ''T_HASH'' True, Qnil), (RString ''T_STRUCT'' True, Qnil),
          (RString ''T_FILE'' True, Qnil), (RString ''T_DATA'' True, Qnil)] True)
   \<and> pg_tmbmt_aref example_tmbmt new_self (RString ''T_FIXNUM'' False) = Inr int8_coder"
proof -
  have calls: "assign_calls (snd (pg_tmbmt_s_allocate (RClass ''PG::TypeMapByMriType'') 0))
      new_self example_calls = Inr example_tmbmt"
    using example_calls_succeed by (simp add: new_tmbmt_def)
  have recent: "most_recent_assign example_calls ''T_FIXNUM'' = int8_coder"
    "most_recent_assign example_calls ''T_ARRAY'' = RProc 2"
    "\<And>name. name \<noteq> ''T_FIXNUM'' \<Longrightarrow> name \<noteq> ''T_ARRAY'' \<Longrightarrow>
       most_recent_assign example_calls name = Qnil"
    by (auto simp add: most_recent_assign_def example_calls_def)
  from coders_after_assign_calls [OF calls]
  have "pg_tmbmt_coders example_tmbmt new_self =
           Inr (RHash (map (\<lambda>type. (RString (stringify type) True,
                                      most_recent_assign example_calls (stringify type)))
                         FOR_EACH_MRI_TYPE) True)"
    and "pg_tmbmt_aref example_tmbmt new_self (RString (stringify T_FIXNUM) False)
           = Inr (most_recent_assign example_calls (stringify T_FIXNUM))"
    by blast+
  with calls show ?thesis
    by (simp add: FOR_EACH_MRI_TYPE_def recent)
qed

text \<open>
  C8. For every value whose type code is listed and whose slot holds a static coder
  \<open>c\<close> in a type map that satisfies the invariant, dispatch returns \<open>c\<close> and leaves the
  world as it was: no call into Ruby code is logged and the struct is unchanged.
\<close>

theorem typecast_static_coder:
  assumes "slot_invariant (tmbmt w)"
      and "rb_type param_value = Listed type"
      and "coder_for (coders (tmbmt w)) type = Some c"
  shows "pg_tmbmt_typecast_query_param u self param_value field w = (Inr (Some c), w)"
proof -
  from assms(1) have "coder_for (coders (tmbmt w)) type = None
      \<or> ask_for (coders (tmbmt w)) type = Qnil"
    by (simp add: slot_invariant_iff)
  with assms(3) have "ask_for (coders (tmbmt w)) type = Qnil" by simp
  then show ?thesis
    using assms(2,3) by (simp add: pg_tmbmt_typecast_query_param_def CASE_AND_GET_def NIL_P_def)
qed

theorem typecast_static_coder_witness:
  "slot_invariant fixnum_coder_tmbmt
   \<and> rb_type (Fixnum 5) = Listed T_FIXNUM
   \<and> coder_for (coders fixnum_coder_tmbmt) T_FIXNUM = Some \<lparr>coder_obj = int_coder\<rparr>
   \<and> pg_tmbmt_typecast_query_param (raising Qtrue) new_self (Fixnum 5) 0
        \<lparr>tmbmt = fixnum_coder_tmbmt, funcalls = []\<rparr>
      = (Inr (Some \<lparr>coder_obj = int_coder\<rparr>), \<lparr>tmbmt = fixnum_coder_tmbmt, funcalls = []\<rparr>)"
proof -
  have inv: "slot_invariant (tmbmt \<lparr>tmbmt = fixnum_coder_tmbmt, funcalls = []\<rparr>)"
    by (simp add: slot_invariant_iff)
  have slot: "coder_for (coders (tmbmt \<lparr>tmbmt = fixnum_coder_tmbmt, funcalls = []\<rparr>)) T_FIXNUM
                = Some \<lparr>coder_obj = int_coder\<rparr>"
    by (simp add: Data_Get_Struct_def)
  have type: "rb_type (Fixnum 5) = Listed T_FIXNUM" by simp
  show ?thesis
    using inv slot typecast_static_coder [OF inv type slot, of "raising Qtrue" new_self 0]
    by simp
qed

text \<open>
  C9. Fitting the type map to a query is the identity: for every type map and every
  parameter list, \<^verbatim>\<open>pg_tmbmt_fit_to_query\<close> returns the type map itself and leaves
  its struct, hence every slot, as it was.
\<close>

theorem fit_to_query_identity:
  "pg_tmbmt_fit_to_query this self params = (self, this)"
  by (simp add: pg_tmbmt_fit_to_query_def)

text \<open>
  C10. For every valid type name, assignment accepts any value that is neither nil nor
  a coder: it succeeds, clears the coder pointer of the slot and stores the value as
  the ask value, whatever the value is. Nothing is checked then: when a value of that
  type is dispatched later, the stored value is called, and if that call raises (as
  sending \<^verbatim>\<open>call\<close> to the integer 42 does), dispatch raises that error.
\<close>

theorem aset_installs_any_value:
  assumes "coder \<noteq> Qnil"
      and "\<not> rb_obj_is_kind_of_PG_Coder coder"
  shows "fst (pg_tmbmt_aset this self (RString (stringify type) fr) coder) = Inr self
       \<and> coder_for (coders (snd (pg_tmbmt_aset this self (RString (stringify type) fr) coder)))
            type = None
       \<and> ask_for (coders (snd (pg_tmbmt_aset this self (RString (stringify type) fr) coder)))
            type = coder
       \<and> (rb_type param_value = Listed type
            \<and> ask_for_coder_call u self coder param_value
                 \<lparr>tmbmt = snd (pg_tmbmt_aset this self (RString (stringify type) fr) coder),
                  funcalls = cs\<rparr> = (Inl e, w')
          \<longrightarrow> pg_tmbmt_typecast_query_param u self param_value field
                 \<lparr>tmbmt = snd (pg_tmbmt_aset this self (RString (stringify type) fr) coder),
                  funcalls = cs\<rparr> = (Inl e, w'))"
  using assms
  by (simp add: aset_valid NIL_P_def pg_tmbmt_typecast_query_param_def CASE_AND_GET_def)

theorem aset_installs_any_value_witness:
  "Fixnum 42 \<noteq> Qnil
   \<and> \<not> rb_obj_is_kind_of_PG_Coder (Fixnum 42)
   \<and> fst (pg_tmbmt_aset new_tmbmt new_self (RString ''T_HASH'' False) (Fixnum 42)) = Inr new_self
   \<and> ask_for (coders hash_fixnum_tmbmt) T_HASH = Fixnum 42
   \<and> rb_type (RHash [] False) = Listed T_HASH
   \<and> ask_for_coder_call (raising (RObject ''NoMethodError'' 9)) new_self (Fixnum 42)
        (RHash [] False) \<lparr>tmbmt = hash_fixnum_tmbmt, funcalls = []\<rparr>
      = (Inl (Raised (RObject ''NoMethodError'' 9)),
         \<lparr>tmbmt = hash_fixnum_tmbmt, funcalls = [(Fixnum 42, ''call'', RHash [] False)]\<rparr>)
   \<and> pg_tmbmt_typecast_query_param (raising (RObject ''NoMethodError'' 9)) new_self
        (RHash [] False) 0 \<lparr>tmbmt = hash_fixnum_tmbmt, funcalls = []\<rparr>
      = (Inl (Raised (RObject ''NoMethodError'' 9)),
         \<lparr>tmbmt = hash_fixnum_tmbmt, funcalls = [(Fixnum 42, ''call'', RHash [] False)]\<rparr>)"
proof -
  have call: "ask_for_coder_call (raising (RObject ''NoMethodError'' 9)) new_self (Fixnum 42)
        (RHash [] False) \<lparr>tmbmt = hash_fixnum_tmbmt, funcalls = []\<rparr>
      = (Inl (Raised (RObject ''NoMethodError'' 9)),
         \<lparr>tmbmt = hash_fixnum_tmbmt, funcalls = [(Fixnum 42, ''call'', RHash [] False)]\<rparr>)"
    by (simp add: ask_for_coder_call_def rb_funcall_def raising_def)
  show ?thesis
    using call
      aset_installs_any_value [where coder = "Fixnum 42" and this = new_tmbmt
        and self = new_self and type = T_HASH and fr = False
        and param_value = "RHash [] False" and u = "raising (RObject ''NoMethodError'' 9)"
        and cs = "[]" and e = "Raised (RObject ''NoMethodError'' 9)" and field = 0
        and w' = "\<lparr>tmbmt = hash_fixnum_tmbmt,
                   funcalls = [(Fixnum 42, ''call'', RHash [] False)]\<rparr>"]
    by (simp add: hash_fixnum_tmbmt_def)
qed

end
